theory Spec2Isabelle
  imports Complex_Main
begin

section \<open>Numbers in template literals\<close>

text \<open>The decimal text JavaScript puts into a template literal for an integer.\<close>

definition digit_char :: "nat \<Rightarrow> char" where
  "digit_char d = ''0123456789'' ! d"

function decimal_acc :: "nat \<Rightarrow> string \<Rightarrow> string" where
  "decimal_acc n acc =
     (let acc' = digit_char (n mod 10) # acc
      in if n div 10 = 0 then acc' else decimal_acc (n div 10) acc')"
  by pat_completeness auto
termination
  by (relation "measure (\<lambda>(n, acc). n)") auto

declare decimal_acc.simps [simp del]

definition number_text :: "int \<Rightarrow> string" where
  "number_text i =
     (if 0 \<le> i then decimal_acc (nat i) [] else CHR ''-'' # decimal_acc (nat (- i)) [])"

section \<open>Orders (lib/api/orders.ts)\<close>

text \<open>
  The interfaces \<^verbatim>\<open>OrderItem\<close>, \<^verbatim>\<open>PaymentDetails\<close> and \<^verbatim>\<open>WaiterOrder\<close>.
  JavaScript numbers that carry identifiers are integers here. A price, quantity or
  amount is the real that a finite double denotes; where the code computes with them,
  every operation rounds its exact result to a double (see \<open>calculateSubtotal\<close>).
  The field \<^verbatim>\<open>id\<close> is called \<open>order_id\<close>, \<open>item_id\<close>, ... since \<open>id\<close> is the identity
  function of HOL.
\<close>

datatype order_status = PENDING | PREPARING | READY | DELIVERED | COMPLETED | CANCELLED

datatype payment_method = cash | card

record OrderItem =
  oi_id :: int
  orderId :: int
  itemId :: int
  quantity :: real
  price :: real

record PaymentDetails =
  paymentMethod :: payment_method
  amountPaid :: real
  pd_notes :: "string option"
  taxPercentage :: "real option"
  taxAmount :: "real option"
  subtotal :: "real option"

record OrderTable =
  table_id :: int
  tableNumber :: int
  number :: "int option"

record WaiterOrder =
  order_id :: int
  tableId :: int
  table :: "OrderTable option"
  status :: order_status
  total :: real
  orderItems :: "OrderItem list"
  createdAt :: string
  updatedAt :: string
  paymentDetails :: "PaymentDetails option"

text \<open>\<^verbatim>\<open>prevOrders.some(order => order.id === updatedOrder.id)\<close>\<close>

definition some_id :: "int \<Rightarrow> ('a WaiterOrder_scheme) list \<Rightarrow> bool" where
  "some_id i os = (i \<in> set (map order_id os))"

section \<open>Chef preparing view (pages/chef/ChefOrdersPage.tsx)\<close>

text \<open>
  \<^verbatim>\<open>DisplayOrder\<close> extends \<^verbatim>\<open>WaiterOrder\<close> with \<^verbatim>\<open>tableName\<close>. The realtime
  payload reads \<^verbatim>\<open>table.number\<close> (a field that may be undefined), the REST payload
  reads \<^verbatim>\<open>table.tableNumber\<close>.
\<close>

record DisplayOrder = WaiterOrder +
  tableName :: string

definition with_tableName :: "WaiterOrder \<Rightarrow> string \<Rightarrow> DisplayOrder" where
  "with_tableName ord tn = WaiterOrder.extend ord (DisplayOrder.fields tn)"

text \<open>The listener of \<^verbatim>\<open>order:status-preparing\<close>:
  \<^verbatim>\<open>setOrders((prevOrders) => [...prevOrders, displayOrder])\<close>.\<close>

definition on_status_preparing :: "WaiterOrder \<Rightarrow> DisplayOrder list \<Rightarrow> DisplayOrder list" where
  "on_status_preparing newOrder prevOrders =
     (let displayOrder = with_tableName newOrder
            (case table newOrder of
               Some t \<Rightarrow> ''Table '' @
                 (case number t of None \<Rightarrow> ''undefined'' | Some n \<Rightarrow> number_text n)
             | None \<Rightarrow> ''Table ID: '' @ number_text (tableId newOrder))
      in prevOrders @ [displayOrder])"

text \<open>\<^verbatim>\<open>fetchPreparingOrders\<close>: the result of \<^verbatim>\<open>ordersApi.getByStatus("PREPARING")\<close>
  is \<open>Inr\<close> of the orders or \<open>Inl\<close> of the error; on an error the list is left as it is.\<close>

definition fetchPreparingOrders ::
  "'e + WaiterOrder list \<Rightarrow> DisplayOrder list \<Rightarrow> DisplayOrder list" where
  "fetchPreparingOrders response prevOrders =
     (case response of
        Inr preparingOrders \<Rightarrow>
          map (\<lambda>ord. with_tableName ord
                 (case table ord of
                    Some t \<Rightarrow> ''Table '' @ number_text (tableNumber t)
                  | None \<Rightarrow> ''Table ID: '' @ number_text (tableId ord))) preparingOrders
      | Inl err \<Rightarrow> prevOrders)"

text \<open>\<^verbatim>\<open>markOrderAsReady\<close>, after \<^verbatim>\<open>ordersApi.updateStatus\<close> succeeded or failed.\<close>

definition markOrderAsReady ::
  "int \<Rightarrow> 'e + WaiterOrder \<Rightarrow> DisplayOrder list \<Rightarrow> DisplayOrder list" where
  "markOrderAsReady ordId response prevOrders =
     (case response of
        Inr _ \<Rightarrow> filter (\<lambda>ord. order_id ord \<noteq> ordId) prevOrders
      | Inl _ \<Rightarrow> prevOrders)"

section \<open>POS page (pages/admin/PosPage.tsx)\<close>

record pos_state =
  deliveredOrders :: "WaiterOrder list"
  selectedOrder :: "WaiterOrder option"
  completedOrder :: "WaiterOrder option"
  receiptMode :: bool

text \<open>
  \<^verbatim>\<open>handleOrderUpdate\<close>, the listener of \<^verbatim>\<open>order:status-change\<close>. The callback is
  rebuilt whenever \<^verbatim>\<open>selectedOrder\<close> or \<^verbatim>\<open>receiptMode\<close> change, so it reads them from
  the current state. Toast notifications are not part of the state.
\<close>

definition pos_handleOrderUpdate :: "WaiterOrder \<Rightarrow> pos_state \<Rightarrow> pos_state" where
  "pos_handleOrderUpdate updatedOrder st =
     (if status updatedOrder = DELIVERED then
        (if \<not> some_id (order_id updatedOrder) (deliveredOrders st)
         then st\<lparr>deliveredOrders := updatedOrder # deliveredOrders st\<rparr>
         else st)
      else if status updatedOrder = COMPLETED then
        (if some_id (order_id updatedOrder) (deliveredOrders st) then
           (let st1 =
              (if map_option order_id (selectedOrder st) = Some (order_id updatedOrder)
                  \<and> \<not> receiptMode st
               then st\<lparr>selectedOrder := None\<rparr> else st)
            in st1\<lparr>deliveredOrders :=
                 filter (\<lambda>ord. order_id ord \<noteq> order_id updatedOrder) (deliveredOrders st)\<rparr>)
         else st)
      else st)"

section \<open>Delivered orders list (components/pos/DeliveredOrdersList.tsx)\<close>

text \<open>
  The component's state, the property \<^verbatim>\<open>selectedOrderId\<close> it receives, and the calls
  it makes to the callbacks of its parent, in the order it makes them.
\<close>

datatype tab_value = recent | all_tab

record list_state =
  orders :: "WaiterOrder list"
  tabValue :: tab_value
  currentFocusIndex :: int

datatype list_call =
    onOrdersUpdate "WaiterOrder list"
  | onOrderSelect "WaiterOrder option"
  | onOrderCompletionChange bool

text \<open>\<^verbatim>\<open>updatedOrders[0] || null\<close>\<close>

fun first_or_null :: "'a list \<Rightarrow> 'a option" where
  "first_or_null [] = None"
| "first_or_null (x # xs) = Some x"

definition list_handleOrderUpdate ::
  "int option \<Rightarrow> WaiterOrder \<Rightarrow> list_state \<Rightarrow> list_state \<times> list_call list" where
  "list_handleOrderUpdate selectedOrderId updatedOrder st =
     (if status updatedOrder = DELIVERED then
        (if \<not> some_id (order_id updatedOrder) (orders st) then
           (let newOrders = updatedOrder # orders st
            in (st\<lparr>orders := newOrders\<rparr>, [onOrdersUpdate newOrders]))
         else (st, []))
      else if status updatedOrder = COMPLETED then
        (if tabValue st = all_tab then
           (let updatedOrders =
                  map (\<lambda>ord. if order_id ord = order_id updatedOrder then updatedOrder else ord)
                    (orders st)
            in (st\<lparr>orders := updatedOrders\<rparr>,
                [onOrdersUpdate updatedOrders] @
                (if selectedOrderId = Some (order_id updatedOrder)
                 then [onOrderCompletionChange True] else [])))
         else
           (let updatedOrders =
                  filter (\<lambda>ord. order_id ord \<noteq> order_id updatedOrder) (orders st)
            in if selectedOrderId = Some (order_id updatedOrder) then
                 (st\<lparr>orders := updatedOrders,
                     currentFocusIndex := (if length updatedOrders > 0 then 0 else - 1)\<rparr>,
                  [onOrderSelect (first_or_null updatedOrders),
                   onOrderCompletionChange False,
                   onOrdersUpdate updatedOrders])
               else (st\<lparr>orders := updatedOrders\<rparr>, [onOrdersUpdate updatedOrders])))
      else (st, []))"

section \<open>The orders client (lib/api/orders.ts, \<^verbatim>\<open>ordersApi\<close>)\<close>

text \<open>
  Every operation awaits one call of the shared HTTP client inside \<^verbatim>\<open>try\<close>. The
  outcome of that call is the argument: \<open>Inr\<close> of \<^verbatim>\<open>response.data\<close>, or \<open>Inl\<close> of the
  error the call rejected with. The result is what the operation resolves with (\<open>Inr\<close>)
  or rejects with (\<open>Inl\<close>). Logging to the console is not modelled.
\<close>

definition getAll :: "'e + WaiterOrder list \<Rightarrow> 'e + WaiterOrder list" where
  "getAll response = (case response of Inr d \<Rightarrow> Inr d | Inl err \<Rightarrow> Inl err)"

definition getById :: "'e + WaiterOrder \<Rightarrow> 'e + WaiterOrder" where
  "getById response = (case response of Inr d \<Rightarrow> Inr d | Inl err \<Rightarrow> Inl err)"

definition getByStatus :: "'e + WaiterOrder list \<Rightarrow> 'e + WaiterOrder list" where
  "getByStatus response = (case response of Inr d \<Rightarrow> Inr d | Inl err \<Rightarrow> Inl err)"

definition updateStatus :: "'e + WaiterOrder \<Rightarrow> 'e + WaiterOrder" where
  "updateStatus response = (case response of Inr d \<Rightarrow> Inr d | Inl err \<Rightarrow> Inl err)"

definition getWaiterDashboardOrders ::
  "'e + (WaiterOrder list \<times> WaiterOrder list) \<Rightarrow> 'e + (WaiterOrder list \<times> WaiterOrder list)" where
  "getWaiterDashboardOrders response = (case response of Inr d \<Rightarrow> Inr d | Inl err \<Rightarrow> Inl err)"

definition getDeliveredOrders :: "'e + WaiterOrder list \<Rightarrow> 'e + WaiterOrder list" where
  "getDeliveredOrders response = (case response of Inr d \<Rightarrow> Inr d | Inl err \<Rightarrow> Inr [])"

definition completeOrder :: "'e + (WaiterOrder \<times> string) \<Rightarrow> 'e + (WaiterOrder \<times> string)" where
  "completeOrder response = (case response of Inr d \<Rightarrow> Inr d | Inl err \<Rightarrow> Inl err)"

text \<open>The body \<^verbatim>\<open>{ orderId, ...paymentDetails }\<close> of \<^verbatim>\<open>POST /orders/pos/complete\<close>.\<close>

record complete_body = PaymentDetails +
  body_orderId :: int

definition completeOrder_body :: "int \<Rightarrow> PaymentDetails \<Rightarrow> complete_body" where
  "completeOrder_body ordId pd = PaymentDetails.extend pd (complete_body.fields ordId)"

section \<open>Order details (components/pos/OrderDetails.tsx)\<close>

text \<open>
  The values of one render of the component. The handlers created in a render close
  over them.
\<close>

record details_render =
  chosenMethod :: payment_method
  processing :: bool
  taxPct :: real

text \<open>
  The component: its latest render, and the render in which the keydown listener was
  registered. The effect that registers the listener has the dependencies
  \<^verbatim>\<open>[order, paymentMethod]\<close>, so the listener is replaced only after a render in which
  one of the two changed; until then Alt+P calls the \<^verbatim>\<open>handleCompletePayment\<close> of the
  render it was registered in. The button calls the one of the latest render.
\<close>

record details_state =
  latest_render :: details_render
  keydown_render :: details_render

definition details_init :: details_state where
  "details_init =
     \<lparr>latest_render = \<lparr>chosenMethod = cash, processing = False, taxPct = 5\<rparr>,
      keydown_render = \<lparr>chosenMethod = cash, processing = False, taxPct = 5\<rparr>\<rparr>"

text \<open>\<^verbatim>\<open>handleTaxChange\<close>: the parsed input, \<open>None\<close> when \<^verbatim>\<open>parseFloat\<close> gives NaN.
  The listener stays.\<close>

definition handleTaxChange :: "real option \<Rightarrow> details_state \<Rightarrow> details_state" where
  "handleTaxChange v st =
     st\<lparr>latest_render := (latest_render st)\<lparr>taxPct := (case v of None \<Rightarrow> 0 | Some x \<Rightarrow> x)\<rparr>\<rparr>"

text \<open>\<^verbatim>\<open>setProcessing\<close>, called by \<^verbatim>\<open>handleCompletePayment\<close> before and after the
  payment. The listener stays.\<close>

definition setProcessing :: "bool \<Rightarrow> details_state \<Rightarrow> details_state" where
  "setProcessing p st = st\<lparr>latest_render := (latest_render st)\<lparr>processing := p\<rparr>\<rparr>"

text \<open>\<^verbatim>\<open>setPaymentMethod\<close> (the two buttons, the keys C and D): a new method gives a new
  render, after which the effect registers the listener again.\<close>

definition setPaymentMethod :: "payment_method \<Rightarrow> details_state \<Rightarrow> details_state" where
  "setPaymentMethod m st =
     (if m = chosenMethod (latest_render st) then st
      else \<lparr>latest_render = (latest_render st)\<lparr>chosenMethod := m\<rparr>,
            keydown_render = (latest_render st)\<lparr>chosenMethod := m\<rparr>\<rparr>)"

text \<open>Another order is passed to the component: the effect registers the listener
  again.\<close>

definition order_changed :: "details_state \<Rightarrow> details_state" where
  "order_changed st = st\<lparr>keydown_render := latest_render st\<rparr>"

text \<open>
  The amounts. \<open>rnd\<close> rounds a real to the nearest double: the sum, the product and
  the quotient of two doubles are the exact results rounded (overflow and NaN are
  left out).
  \<^verbatim>\<open>order.orderItems.reduce((sum, item) => sum + Number(item.price) * item.quantity, 0)\<close>
\<close>

definition calculateSubtotal :: "(real \<Rightarrow> real) \<Rightarrow> WaiterOrder \<Rightarrow> real" where
  "calculateSubtotal rnd ord =
     foldl (\<lambda>sum item. rnd (sum + rnd (price item * quantity item))) 0 (orderItems ord)"

definition calculateTaxAmount :: "(real \<Rightarrow> real) \<Rightarrow> details_render \<Rightarrow> WaiterOrder \<Rightarrow> real" where
  "calculateTaxAmount rnd r ord = rnd (rnd (calculateSubtotal rnd ord * taxPct r) / 100)"

definition calculateTotal :: "(real \<Rightarrow> real) \<Rightarrow> details_render \<Rightarrow> WaiterOrder \<Rightarrow> real" where
  "calculateTotal rnd r ord = rnd (calculateSubtotal rnd ord + calculateTaxAmount rnd r ord)"

text \<open>
  \<^verbatim>\<open>handleCompletePayment\<close> of the render \<open>r\<close>: nothing when \<^verbatim>\<open>processing\<close> was set in
  that render; otherwise the call \<^verbatim>\<open>onCompleteOrder(order.id, paymentDetails)\<close> it
  makes. A table number of 0 is falsy, so it prints as \<^verbatim>\<open>Unknown\<close>.
\<close>

definition handleCompletePayment ::
  "(real \<Rightarrow> real) \<Rightarrow> details_render \<Rightarrow> WaiterOrder \<Rightarrow> (int \<times> PaymentDetails) option" where
  "handleCompletePayment rnd r ord =
     (if processing r then None
      else Some (order_id ord,
        \<lparr>paymentMethod = chosenMethod r,
         amountPaid = calculateTotal rnd r ord,
         pd_notes = Some (''Payment processed by POS admin for table '' @
           (case table ord of
              None \<Rightarrow> ''Unknown''
            | Some t \<Rightarrow> if tableNumber t = 0 then ''Unknown'' else number_text (tableNumber t))),
         taxPercentage = Some (taxPct r),
         taxAmount = Some (calculateTaxAmount rnd r ord),
         subtotal = Some (calculateSubtotal rnd ord)\<rparr>))"

text \<open>
  \<^verbatim>\<open>PosPage.handleCompleteOrder\<close> passes the details on to \<^verbatim>\<open>ordersApi.completeOrder\<close>,
  so the body that the handler of the render \<open>r\<close> makes the POS page submit is:
\<close>

definition payment_submission ::
  "(real \<Rightarrow> real) \<Rightarrow> details_render \<Rightarrow> WaiterOrder \<Rightarrow> complete_body option" where
  "payment_submission rnd r ord =
     map_option (\<lambda>(ordId, pd). completeOrder_body ordId pd) (handleCompletePayment rnd r ord)"

text \<open>The two ways to complete a payment: the button, and Alt+P (pressed outside an
  input field).\<close>

definition button_submission ::
  "(real \<Rightarrow> real) \<Rightarrow> details_state \<Rightarrow> WaiterOrder \<Rightarrow> complete_body option" where
  "button_submission rnd st ord = payment_submission rnd (latest_render st) ord"

definition alt_p_submission ::
  "(real \<Rightarrow> real) \<Rightarrow> details_state \<Rightarrow> WaiterOrder \<Rightarrow> complete_body option" where
  "alt_p_submission rnd st ord = payment_submission rnd (keydown_render st) ord"

text \<open>
  \<^verbatim>\<open>PosPage.handleCompleteOrder\<close> after the server answered: the new state, the events
  emitted on the socket, and the promise it returns.
\<close>

definition pos_handleCompleteOrder ::
  "int \<Rightarrow> 'e + (WaiterOrder \<times> string) \<Rightarrow> pos_state
     \<Rightarrow> pos_state \<times> WaiterOrder list \<times> ('e + unit)" where
  "pos_handleCompleteOrder ordId response st =
     (case completeOrder response of
        Inr (ord, message) \<Rightarrow>
          (st\<lparr>completedOrder := Some ord, receiptMode := True,
              deliveredOrders := filter (\<lambda>o'. order_id o' \<noteq> ordId) (deliveredOrders st)\<rparr>,
           [ord\<lparr>status := COMPLETED\<rparr>], Inr ())
      | Inl err \<Rightarrow> (st, [], Inl err))"

section \<open>Session helpers (lib/AuthHelpers.ts) and the shared client (lib/api/client.ts)\<close>

text \<open>
  The browser as the helpers see it: \<^verbatim>\<open>localStorage\<close>, \<^verbatim>\<open>window.location.href\<close>, and
  the navigations that assignments to it have started, oldest first. \<open>None\<close> is an
  environment without \<^verbatim>\<open>window\<close>.
\<close>

record browser =
  localStorage :: "string \<rightharpoonup> string"
  href :: string
  navigations :: "string list"

definition logout :: "browser option \<Rightarrow> browser option" where
  "logout w =
     (case w of
        None \<Rightarrow> None
      | Some b \<Rightarrow>
          Some (b\<lparr>localStorage := (localStorage b)(''auth-token'' := None, ''auth-role'' := None),
                  href := ''/login'',
                  navigations := navigations b @ [''/login'']\<rparr>))"

text \<open>
  An error of the HTTP client: \<^verbatim>\<open>error.response\<close> is absent when no response arrived.
  \<open>data_message\<close> is \<^verbatim>\<open>response.data?.message\<close> when that is a string.
\<close>

record http_response =
  resp_status :: int
  data_message :: "string option"

record http_error =
  err_response :: "http_response option"

text \<open>The response interceptor's error handler: the browser afterwards, and the error
  that the promise it returns (\<^verbatim>\<open>Promise.reject(error)\<close>) is rejected with.\<close>

definition on_response_error :: "http_error \<Rightarrow> browser option \<Rightarrow> browser option \<times> http_error" where
  "on_response_error err w =
     ((case err_response err of
         Some r \<Rightarrow>
           if resp_status r = 401 then
             (if data_message r \<noteq> Some ''User has not been assigned a role''
              then logout w else w)
           else w
       | None \<Rightarrow> w),
      err)"

subsection \<open>\<^verbatim>\<open>isTokenExpired\<close>\<close>

text \<open>\<^verbatim>\<open>token.split('.')\<close>\<close>

fun split_on :: "char \<Rightarrow> string \<Rightarrow> string list" where
  "split_on c [] = [[]]"
| "split_on c (x # xs) =
     (if x = c then [] # split_on c xs
      else (case split_on c xs of
              w # ws \<Rightarrow> (x # w) # ws
            | [] \<Rightarrow> [[x]]))"

text \<open>\<^verbatim>\<open>xs[i]\<close>, \<open>None\<close> for \<^verbatim>\<open>undefined\<close>.\<close>

fun index_opt :: "'a list \<Rightarrow> nat \<Rightarrow> 'a option" where
  "index_opt [] i = None"
| "index_opt (x # xs) 0 = Some x"
| "index_opt (x # xs) (Suc i) = index_opt xs i"

text \<open>
  The values \<^verbatim>\<open>JSON.parse\<close> returns, and the library functions the check calls:
  \<^verbatim>\<open>atob\<close> and \<^verbatim>\<open>JSON.parse\<close> (\<open>None\<close> when they throw) and the conversion to a number
  that \<^verbatim>\<open><\<close> applies to strings, arrays and objects (\<open>None\<close> for NaN).
\<close>

datatype json =
    JNull | JBool bool | JNum real | JStr string | JArr "json list" | JObj "(string \<times> json) list"

datatype jsval = Undefined | Val json

record js_library =
  atob :: "string \<Rightarrow> string option"
  JSON_parse :: "string \<Rightarrow> json option"
  ToNumber :: "json \<Rightarrow> real option"

text \<open>\<^verbatim>\<open>decoded.exp\<close>: a TypeError (\<open>None\<close>) on \<^verbatim>\<open>null\<close>; on an object the last entry
  of that key; \<^verbatim>\<open>undefined\<close> on anything else.\<close>

fun get_exp :: "json \<Rightarrow> jsval option" where
  "get_exp JNull = None"
| "get_exp (JObj kvs) =
     Some (case map_of (rev kvs) ''exp'' of None \<Rightarrow> Undefined | Some v \<Rightarrow> Val v)"
| "get_exp (JBool b) = Some Undefined"
| "get_exp (JNum x) = Some Undefined"
| "get_exp (JStr s) = Some Undefined"
| "get_exp (JArr xs) = Some Undefined"

fun to_number :: "js_library \<Rightarrow> jsval \<Rightarrow> real option" where
  "to_number L Undefined = None"
| "to_number L (Val JNull) = Some 0"
| "to_number L (Val (JBool b)) = Some (if b then 1 else 0)"
| "to_number L (Val (JNum x)) = Some x"
| "to_number L (Val (JStr s)) = ToNumber L (JStr s)"
| "to_number L (Val (JArr xs)) = ToNumber L (JArr xs)"
| "to_number L (Val (JObj kvs)) = ToNumber L (JObj kvs)"

text \<open>\<^verbatim>\<open>v < t\<close> for a number \<open>t\<close>: false when \<open>v\<close> converts to NaN.\<close>

definition js_less :: "js_library \<Rightarrow> jsval \<Rightarrow> real \<Rightarrow> bool" where
  "js_less L v t = (case to_number L v of None \<Rightarrow> False | Some x \<Rightarrow> x < t)"

text \<open>
  \<^verbatim>\<open>isTokenExpired\<close>, given the library, \<^verbatim>\<open>Date.now()\<close> in milliseconds and the
  browser's storage. Every \<^verbatim>\<open>throw\<close> inside \<^verbatim>\<open>try\<close> ends in \<^verbatim>\<open>return true\<close>.
\<close>

definition isTokenExpired :: "js_library \<Rightarrow> real \<Rightarrow> browser \<Rightarrow> bool" where
  "isTokenExpired L now b =
     (case localStorage b ''auth-token'' of
        None \<Rightarrow> True
      | Some token \<Rightarrow>
          if token = [] then True
          else (case index_opt (split_on CHR ''.'' token) 1 of
                  None \<Rightarrow> True
                | Some payload \<Rightarrow>
                    if payload = [] then True
                    else (case atob L payload of
                            None \<Rightarrow> True
                          | Some plain \<Rightarrow>
                              (case JSON_parse L plain of
                                 None \<Rightarrow> True
                               | Some decoded \<Rightarrow>
                                   (case get_exp decoded of
                                      None \<Rightarrow> True
                                    | Some e \<Rightarrow> js_less L e (now / 1000))))))"

definition validateAuth :: "js_library \<Rightarrow> real \<Rightarrow> browser \<Rightarrow> bool" where
  "validateAuth L now b =
     (case localStorage b ''auth-token'' of
        None \<Rightarrow> False
      | Some token \<Rightarrow> if token = [] then False else \<not> isTokenExpired L now b)"

section \<open>Prices (lib/utils.ts, \<^verbatim>\<open>getItemPrice\<close>)\<close>

text \<open>
  The item is untyped. A field is \<^verbatim>\<open>undefined\<close>, \<^verbatim>\<open>null\<close>, a number (possibly NaN),
  or some other value, kept as the string \<^verbatim>\<open>String(v)\<close> that is handed to
  \<^verbatim>\<open>parseFloat\<close>. \<^verbatim>\<open>parseFloat\<close> is a parameter. Infinite numbers are left out.
\<close>

datatype jsnum = NaN | Num real

datatype field_value = FUndefined | FNull | FNumber jsnum | FOther string

record price_item =
  halfPrice :: field_value
  fullPrice :: field_value
  legacy_price :: field_value

text \<open>\<^verbatim>\<open>typeof v === 'number' ? v : parseFloat(String(v))\<close>\<close>

fun as_number :: "(string \<Rightarrow> jsnum) \<Rightarrow> field_value \<Rightarrow> jsnum" where
  "as_number parseFloat (FNumber n) = n"
| "as_number parseFloat (FOther s) = parseFloat s"
| "as_number parseFloat FUndefined = parseFloat ''undefined''"
| "as_number parseFloat FNull = parseFloat ''null''"

text \<open>\<^verbatim>\<open>isNaN(x) ? 0 : x\<close>\<close>

fun nan_to_zero :: "jsnum \<Rightarrow> real" where
  "nan_to_zero NaN = 0"
| "nan_to_zero (Num x) = x"

definition present :: "field_value \<Rightarrow> bool" where
  "present v = (v \<noteq> FUndefined \<and> v \<noteq> FNull)"

text \<open>\<open>None\<close> is a missing (falsy) item.\<close>

definition getItemPrice :: "(string \<Rightarrow> jsnum) \<Rightarrow> price_item option \<Rightarrow> bool \<Rightarrow> real" where
  "getItemPrice parseFloat item isHalfPortion =
     (case item of
        None \<Rightarrow> 0
      | Some it \<Rightarrow>
          if isHalfPortion \<and> present (halfPrice it)
          then nan_to_zero (as_number parseFloat (halfPrice it))
          else if present (fullPrice it)
          then nan_to_zero (as_number parseFloat (fullPrice it))
          else if present (legacy_price it)
          then nan_to_zero (as_number parseFloat (legacy_price it))
          else 0)"

text \<open>What the claim calls a numeric field: a number that is not NaN, or another value
  that \<^verbatim>\<open>parseFloat\<close> reads as one.\<close>

fun numeric :: "(string \<Rightarrow> jsnum) \<Rightarrow> field_value \<Rightarrow> real option" where
  "numeric parseFloat (FNumber (Num x)) = Some x"
| "numeric parseFloat (FNumber NaN) = None"
| "numeric parseFloat (FOther s) = (case parseFloat s of Num x \<Rightarrow> Some x | NaN \<Rightarrow> None)"
| "numeric parseFloat FUndefined = None"
| "numeric parseFloat FNull = None"

section \<open>Routes and guards (App.tsx, lib/AuthGuard.tsx)\<close>

datatype role = ADMIN | CHEF | WAITER | POS_ADMIN | CUSTOMER

text \<open>The authentication context: \<^verbatim>\<open>isAuthenticated\<close> is \<^verbatim>\<open>!!token\<close>.\<close>

record auth_context =
  ctx_token :: "string option"
  userRole :: "role option"

definition isAuthenticated :: "auth_context \<Rightarrow> bool" where
  "isAuthenticated a = (case ctx_token a of None \<Rightarrow> False | Some t \<Rightarrow> t \<noteq> [])"

datatype page =
    LoadingDiv | AdminDashboard | CategoryPage | ManageMenusPage | ItemPage | TablePage
  | SettingsPage | PosPage | ChefDashboard | ChefOrdersPage | WaiterDashboard
  | WaiterOrdersPage | WaiterOrdersKOTPage | LoginPage | SignupPage | NewUserPage
  | MenuCardPage

text \<open>
  A route's element. \<open>Navigate to from\<close> is \<^verbatim>\<open><Navigate to=... state={{ from }} />\<close>,
  with \<open>from = None\<close> when no state is passed.
\<close>

datatype element =
    Page page
  | Navigate string "string option"
  | AuthGuard element
  | PosGuard element
  | GuestGuard element

text \<open>What the visitor gets: a page, or a redirect with the location it carries.\<close>

datatype outcome = Rendered page | Redirect string "string option"

definition role_home :: "role option \<Rightarrow> string" where
  "role_home r =
     (if r = Some ADMIN then ''/admin/dashboard''
      else if r = Some CHEF then ''/chef''
      else if r = Some WAITER then ''/waiter''
      else if r = Some POS_ADMIN then ''/posAdmin/pos''
      else ''/menu'')"

text \<open>
  The state of a guard: \<^verbatim>\<open>const [isTokenValid, setIsTokenValid] = useState(true)\<close>, and
  the effect \<^verbatim>\<open>checkToken\<close> that runs after a render and stores \<^verbatim>\<open>validateAuth()\<close>.
\<close>

record guard_state =
  isTokenValid :: bool

definition guard_init :: guard_state where
  "guard_init = \<lparr>isTokenValid = True\<rparr>"

definition checkToken :: "js_library \<Rightarrow> real \<Rightarrow> browser \<Rightarrow> guard_state \<Rightarrow> guard_state" where
  "checkToken L now b g = g\<lparr>isTokenValid := validateAuth L now b\<rparr>"

text \<open>One render of an element at a location, in the guard state \<open>g\<close>.\<close>

fun render :: "auth_context \<Rightarrow> guard_state \<Rightarrow> string \<Rightarrow> element \<Rightarrow> outcome" where
  "render a g pathname (Page p) = Rendered p"
| "render a g pathname (Navigate to from) = Redirect to from"
| "render a g pathname (AuthGuard children) =
     (if \<not> isAuthenticated a \<or> \<not> isTokenValid g then Redirect ''/login'' (Some pathname)
      else if pathname = ''/'' then Redirect (role_home (userRole a)) None
      else render a g pathname children)"
| "render a g pathname (PosGuard children) =
     (if \<not> isAuthenticated a then Redirect ''/login'' None
      else if userRole a \<noteq> Some ADMIN \<and> userRole a \<noteq> Some POS_ADMIN then Redirect ''/'' None
      else render a g pathname children)"
| "render a g pathname (GuestGuard children) =
     (if (pathname = ''/newUser'' \<or> pathname = ''/login'') \<and> isAuthenticated a
          \<and> userRole a = None
      then render a g pathname children
      else if isAuthenticated a \<and> isTokenValid g then
        (if userRole a = Some ADMIN then Redirect ''/admin/dashboard'' None
         else if userRole a = Some CHEF then Redirect ''/chef'' None
         else if userRole a = Some WAITER then Redirect ''/waiter'' None
         else if userRole a = Some POS_ADMIN then Redirect ''/posAdmin/pos'' None
         else if userRole a = None \<and> pathname \<noteq> ''/login'' then Redirect ''/newUser'' None
         else Redirect ''/menu'' None)
      else render a g pathname children)"

text \<open>The \<^verbatim>\<open><Routes>\<close> of \<^verbatim>\<open>App\<close> with a fixed path, in the order of the source.\<close>

definition routes :: "(string \<times> element) list" where
  "routes =
     [(''/'', AuthGuard (Page LoadingDiv)),
      (''/admin'', AuthGuard (Navigate ''/admin/dashboard'' None)),
      (''/admin/dashboard'', AuthGuard (Page AdminDashboard)),
      (''/admin/categories'', AuthGuard (Page CategoryPage)),
      (''/admin/menus'', AuthGuard (Page ManageMenusPage)),
      (''/admin/items'', AuthGuard (Page ItemPage)),
      (''/admin/tables'', AuthGuard (Page TablePage)),
      (''/admin/settings'', AuthGuard (Page SettingsPage)),
      (''/posAdmin/pos'', AuthGuard (PosGuard (Page PosPage))),
      (''/chef'', Page ChefDashboard),
      (''/chef/orders'', Page ChefOrdersPage),
      (''/waiter'', Page WaiterDashboard),
      (''/waiter/orders'', Page WaiterOrdersPage),
      (''/waiter/ordersKOT'', Page WaiterOrdersKOTPage),
      (''/login'', GuestGuard (Page LoginPage)),
      (''/signup'', GuestGuard (Page SignupPage)),
      (''/newUser'', GuestGuard (Page NewUserPage))]"

text \<open>
  The router compares a location with a route's path without regard to the case of
  letters and to slashes at the end of the location: both are brought to this form.
\<close>

definition lower_char :: "char \<Rightarrow> char" where
  "lower_char c =
     (case map_of (zip ''ABCDEFGHIJKLMNOPQRSTUVWXYZ'' ''abcdefghijklmnopqrstuvwxyz'') c of
        Some l \<Rightarrow> l
      | None \<Rightarrow> c)"

definition match_key :: "string \<Rightarrow> string" where
  "match_key pathname = map lower_char (rev (dropWhile (\<lambda>c. c = CHR ''/'') (rev pathname)))"

definition find_route :: "string \<Rightarrow> (string \<times> element) option" where
  "find_route pathname = find (\<lambda>(path, e). match_key path = match_key pathname) routes"

text \<open>
  The element for a location: a fixed route, else \<^verbatim>\<open>/table/:tableNumber\<close> (one segment
  that is not empty), else the catch-all \<^verbatim>\<open><Navigate to="/" replace />\<close>.
\<close>

definition route_element :: "string \<Rightarrow> element" where
  "route_element pathname =
     (case find_route pathname of
        Some (path, e) \<Rightarrow> e
      | None \<Rightarrow>
          (case split_on CHR ''/'' (match_key pathname) of
             [a, b, c] \<Rightarrow>
               if a = [] \<and> b = ''table'' \<and> c \<noteq> [] then Page MenuCardPage
               else Navigate ''/'' None
           | _ \<Rightarrow> Navigate ''/'' None))"

text \<open>
  What a visitor of a location gets, in order. The first render is in the guard's
  initial state. A redirect leaves the route. Otherwise the guard's effect runs
  (\<^verbatim>\<open>GuestGuard\<close> runs it only when authenticated, and reads the state only then) and
  the element is rendered again in the new state; the second outcome is listed when
  it differs from the first.
\<close>

definition visit :: "js_library \<Rightarrow> real \<Rightarrow> browser \<Rightarrow> auth_context \<Rightarrow> string \<Rightarrow> outcome list" where
  "visit L now b a pathname =
     (let first = render a guard_init pathname (route_element pathname);
          second = render a (checkToken L now b guard_init) pathname (route_element pathname)
      in case first of
           Redirect to from \<Rightarrow> [first]
         | Rendered p \<Rightarrow> if second = first then [first] else [first, second])"

section \<open>Categories (pages/admin/CategoryPage.tsx, DeleteCategoryConfirmDialog.tsx)\<close>

record Category =
  cat_id :: int
  cat_name :: string

record MenuItem =
  item_id :: int
  item_name :: string
  item_fullPrice :: real
  item_halfPrice :: "real option"
  preparationTime :: real
  isAvailable :: bool
  categoryId :: int

record category_page =
  categories :: "Category list"
  menuItems :: "MenuItem list"
  currentCategory :: "Category option"
  selectedCategories :: "int list"
  deleteDialogOpen :: bool
  batchDeleteDialogOpen :: bool

definition getCategoryItemCount :: "category_page \<Rightarrow> int \<Rightarrow> nat" where
  "getCategoryItemCount st cid = length (filter (\<lambda>item. categoryId item = cid) (menuItems st))"

text \<open>The properties of \<^verbatim>\<open>DeleteCategoryConfirmDialog\<close> that decide what it shows.\<close>

record dialog_props =
  dlg_open :: bool
  dlg_category :: "Category option"
  itemCount :: nat
  dlg_title :: "string option"
  dlg_description :: "string option"

text \<open>A string property is truthy when it is given and not empty.\<close>

definition truthy :: "string option \<Rightarrow> bool" where
  "truthy s = (case s of None \<Rightarrow> False | Some x \<Rightarrow> x \<noteq> [])"

text \<open>
  Whether the dialog offers the \<^verbatim>\<open>Delete\<close> action, whose click calls \<^verbatim>\<open>onConfirm\<close>:
  the component returns \<^verbatim>\<open>null\<close> without category, title and description; a closed
  dialog shows nothing; the action is rendered under \<^verbatim>\<open>(!hasItems || description)\<close>.
\<close>

definition offers_delete :: "dialog_props \<Rightarrow> bool" where
  "offers_delete p =
     (if dlg_category p = None \<and> \<not> truthy (dlg_title p) \<and> \<not> truthy (dlg_description p)
      then False
      else dlg_open p \<and> (\<not> (itemCount p > 0) \<or> truthy (dlg_description p)))"

definition single_dialog :: "category_page \<Rightarrow> dialog_props" where
  "single_dialog st =
     \<lparr>dlg_open = deleteDialogOpen st,
      dlg_category = currentCategory st,
      itemCount = (case currentCategory st of
                     Some c \<Rightarrow> getCategoryItemCount st (cat_id c)
                   | None \<Rightarrow> 0),
      dlg_title = None,
      dlg_description = None\<rparr>"

definition batch_dialog :: "category_page \<Rightarrow> dialog_props" where
  "batch_dialog st =
     \<lparr>dlg_open = batchDeleteDialogOpen st,
      dlg_category = None,
      itemCount = foldl (\<lambda>total cid. total + getCategoryItemCount st cid) 0
                    (selectedCategories st),
      dlg_title = Some ''Delete Multiple Categories'',
      dlg_description = Some (''Are you sure you want to delete '' @
         number_text (int (length (selectedCategories st))) @
         '' categories? This action cannot be undone.'')\<rparr>"

text \<open>The ids for which \<^verbatim>\<open>categoriesApi.delete\<close> is called, in order.\<close>

definition handleDeleteCategory :: "category_page \<Rightarrow> int list" where
  "handleDeleteCategory st = (case currentCategory st of None \<Rightarrow> [] | Some c \<Rightarrow> [cat_id c])"

definition handleBatchDeleteCategories :: "category_page \<Rightarrow> int list" where
  "handleBatchDeleteCategories st =
     (if length (selectedCategories st) = 0 then [] else selectedCategories st)"

text \<open>Pressing \<^verbatim>\<open>Delete\<close> in either dialog, when the dialog offers it.\<close>

definition confirm_single :: "category_page \<Rightarrow> int list" where
  "confirm_single st = (if offers_delete (single_dialog st) then handleDeleteCategory st else [])"

definition confirm_batch :: "category_page \<Rightarrow> int list" where
  "confirm_batch st =
     (if offers_delete (batch_dialog st) then handleBatchDeleteCategories st else [])"

section \<open>Chef item availability (pages/chef/ChefPage.tsx)\<close>

text \<open>
  \<^verbatim>\<open>handleToggleAvailability\<close>: the optimistic update, then the answer of
  \<^verbatim>\<open>menuItemsApi.update\<close>; on an error the flag of every item with that id is set to
  the flag of the item the handler was called with.
\<close>

definition handleToggleAvailability ::
  "MenuItem \<Rightarrow> 'e + MenuItem \<Rightarrow> MenuItem list \<Rightarrow> MenuItem list" where
  "handleToggleAvailability item response prevItems =
     (let flipped =
            map (\<lambda>i. if item_id i = item_id item then i\<lparr>isAvailable := \<not> isAvailable i\<rparr> else i)
              prevItems
      in case response of
           Inr _ \<Rightarrow> flipped
         | Inl _ \<Rightarrow>
             map (\<lambda>i. if item_id i = item_id item then i\<lparr>isAvailable := isAvailable item\<rparr> else i)
               flipped)"

section \<open>Notions of the specification\<close>

text \<open>The subtotal of the specification: the sum over the lines of price times quantity.\<close>

definition spec_subtotal :: "WaiterOrder \<Rightarrow> real" where
  "spec_subtotal ord = (\<Sum>item\<leftarrow>orderItems ord. price item * quantity item)"

text \<open>The message by which the server signals that no role is assigned yet.\<close>

definition no_role_message :: string where
  "no_role_message = ''User has not been assigned a role''"

text \<open>
  The middle segment of a token (absent when there is no second segment or it is
  empty), its decoding (\<^verbatim>\<open>atob\<close>, then \<^verbatim>\<open>JSON.parse\<close>), and the expiry timestamp of
  a decoded payload: the number under \<^verbatim>\<open>exp\<close> of an object.
\<close>

definition middle_segment :: "string \<Rightarrow> string option" where
  "middle_segment token =
     (case index_opt (split_on CHR ''.'' token) 1 of
        None \<Rightarrow> None
      | Some p \<Rightarrow> if p = [] then None else Some p)"

definition decode_segment :: "js_library \<Rightarrow> string \<Rightarrow> json option" where
  "decode_segment L p = (case atob L p of None \<Rightarrow> None | Some s \<Rightarrow> JSON_parse L s)"

fun expiry_claim :: "json \<Rightarrow> real option" where
  "expiry_claim (JObj kvs) =
     (case map_of (rev kvs) ''exp'' of Some (JNum e) \<Rightarrow> Some e | _ \<Rightarrow> None)"
| "expiry_claim _ = None"

text \<open>The routes whose element is wrapped in \<^verbatim>\<open>AuthGuard\<close>.\<close>

definition auth_guarded :: "string \<Rightarrow> bool" where
  "auth_guarded pathname =
     (case find_route pathname of Some (path, AuthGuard e) \<Rightarrow> True | _ \<Rightarrow> False)"

section \<open>Example data\<close>

definition sample_order :: "int \<Rightarrow> order_status \<Rightarrow> OrderItem list \<Rightarrow> WaiterOrder" where
  "sample_order i s its =
     \<lparr>order_id = i, tableId = 7, table = None, status = s, total = 0, orderItems = its,
      createdAt = ''2024-01-01T10:00:00Z'', updatedAt = ''2024-01-01T10:00:00Z'',
      paymentDetails = None\<rparr>"

definition sample_pos_state :: pos_state where
  "sample_pos_state =
     \<lparr>deliveredOrders = [sample_order 1 DELIVERED [], sample_order 2 DELIVERED []],
      selectedOrder = Some (sample_order 1 DELIVERED []),
      completedOrder = None, receiptMode = False\<rparr>"

definition sample_list_state :: list_state where
  "sample_list_state =
     \<lparr>orders = [sample_order 1 DELIVERED [], sample_order 2 DELIVERED []],
      tabValue = recent, currentFocusIndex = 0\<rparr>"

definition sample_items :: "OrderItem list" where
  "sample_items =
     [\<lparr>oi_id = 1, orderId = 99, itemId = 10, quantity = 2, price = 75\<rparr>,
      \<lparr>oi_id = 2, orderId = 99, itemId = 11, quantity = 1, price = 50\<rparr>]"

definition sample_browser :: browser where
  "sample_browser =
     \<lparr>localStorage = [''auth-token'' \<mapsto> ''h.e30=.s'', ''auth-role'' \<mapsto> ''1''],
      href = ''/chef'', navigations = []\<rparr>"

definition error_with :: "int \<Rightarrow> string option \<Rightarrow> http_error" where
  "error_with code msg = \<lparr>err_response = Some \<lparr>resp_status = code, data_message = msg\<rparr>\<rparr>"

text \<open>A browser whose storage holds just the given token.\<close>

definition token_in :: "string option \<Rightarrow> browser" where
  "token_in t = \<lparr>localStorage = (\<lambda>k. if k = ''auth-token'' then t else None),
                 href = ''/'', navigations = []\<rparr>"

text \<open>
  A stand-in library for examples: it decodes four payloads, the Base64 of
  \<^verbatim>\<open>{}\<close>, of \<^verbatim>\<open>{"exp":100}\<close>, of \<^verbatim>\<open>{"exp":"abc"}\<close> and of \<^verbatim>\<open>not json\<close>, and parses
  the first three; no string, array or object converts to a number.
\<close>

definition sample_library :: js_library where
  "sample_library =
     \<lparr>atob = (\<lambda>s. if s = ''e30='' then Some ''{}''
                 else if s = ''eyJleHAiOjEwMH0='' then Some ''{\"exp\":100}''
                 else if s = ''eyJleHAiOiJhYmMifQ=='' then Some ''{\"exp\":\"abc\"}''
                 else if s = ''bm90IGpzb24='' then Some ''not json''
                 else None),
      JSON_parse = (\<lambda>s. if s = ''{}'' then Some (JObj [])
                 else if s = ''{\"exp\":100}'' then Some (JObj [(''exp'', JNum 100)])
                 else if s = ''{\"exp\":\"abc\"}'' then Some (JObj [(''exp'', JStr ''abc'')])
                 else None),
      ToNumber = (\<lambda>v. None)\<rparr>"

definition sample_parseFloat :: "string \<Rightarrow> jsnum" where
  "sample_parseFloat s = (if s = ''12.5'' then Num 12.5 else NaN)"

definition visitor :: auth_context where
  "visitor = \<lparr>ctx_token = None, userRole = None\<rparr>"

definition admin_context :: auth_context where
  "admin_context = \<lparr>ctx_token = Some ''h.eyJleHAiOjEwMH0=.s'', userRole = Some ADMIN\<rparr>"

definition sample_category_page :: category_page where
  "sample_category_page =
     \<lparr>categories = [\<lparr>cat_id = 1, cat_name = ''Starters''\<rparr>],
      menuItems = [\<lparr>item_id = 10, item_name = ''Soup'', item_fullPrice = 120,
                    item_halfPrice = None, preparationTime = 10, isAvailable = True,
                    categoryId = 1\<rparr>],
      currentCategory = None,
      selectedCategories = [1],
      deleteDialogOpen = False,
      batchDeleteDialogOpen = True\<rparr>"

definition sample_menu :: "MenuItem list" where
  "sample_menu =
     [\<lparr>item_id = 10, item_name = ''Soup'', item_fullPrice = 120, item_halfPrice = None,
       preparationTime = 10, isAvailable = True, categoryId = 1\<rparr>,
      \<lparr>item_id = 11, item_name = ''Naan'', item_fullPrice = 40, item_halfPrice = Some 25,
       preparationTime = 5, isAvailable = False, categoryId = 2\<rparr>]"

section \<open>The chef's preparing view\<close>

lemma order_id_with_tableName: "order_id (with_tableName ord tn) = order_id ord"
  by (simp add: with_tableName_def WaiterOrder.defs)

lemma on_status_preparing_ids:
  "map order_id (on_status_preparing ev prevOrders) = map order_id prevOrders @ [order_id ev]"
  by (simp add: on_status_preparing_def order_id_with_tableName Let_def)

lemma fetchPreparingOrders_ids:
  "map order_id (fetchPreparingOrders (Inr os) prevOrders) = map order_id os"
  by (simp add: fetchPreparingOrders_def order_id_with_tableName comp_def)

text \<open>
  C1. The claim: the listener of \<^verbatim>\<open>order:status-preparing\<close> appends the order only if
  no order with that id is in the working set, so the order is there exactly once
  afterwards. The listener appends without looking: when order 42 was loaded by the
  initial fetch, or when the event arrives twice, the working set holds order 42 twice.
\<close>

theorem chef_preparing_event_duplicates:
  "map order_id
     (on_status_preparing (sample_order 42 PREPARING [])
        (fetchPreparingOrders (Inr [sample_order 42 PREPARING []] :: string + WaiterOrder list)
           [])) = [42, 42]
   \<and> map order_id
     (on_status_preparing (sample_order 42 PREPARING [])
        (on_status_preparing (sample_order 42 PREPARING []) [])) = [42, 42]"
  by (simp add: on_status_preparing_ids fetchPreparingOrders_ids sample_order_def)

section \<open>Idempotence of reconciliation\<close>

lemma some_id_Cons: "some_id i (x # xs) = (order_id x = i \<or> some_id i xs)"
  by (auto simp: some_id_def)

lemma some_id_filter_self: "\<not> some_id i (filter (\<lambda>ord. order_id ord \<noteq> i) xs)"
  by (auto simp: some_id_def)

lemma replace_id_idem:
  "map (\<lambda>ord. if order_id ord = order_id u then u else ord)
     (map (\<lambda>ord. if order_id ord = order_id u then u else ord) xs)
   = map (\<lambda>ord. if order_id ord = order_id u then u else ord) xs"
  by (induction xs) auto

lemma replace_id_ids:
  "map order_id (map (\<lambda>ord. if order_id ord = order_id u then u else ord) xs) = map order_id xs"
  by (induction xs) auto

lemma pos_handleOrderUpdate_idem:
  "pos_handleOrderUpdate ev (pos_handleOrderUpdate ev st) = pos_handleOrderUpdate ev st"
  by (simp add: pos_handleOrderUpdate_def some_id_Cons some_id_filter_self Let_def)

lemma list_handleOrderUpdate_idem:
  "orders (fst (list_handleOrderUpdate sel2 ev (fst (list_handleOrderUpdate sel1 ev st))))
     = orders (fst (list_handleOrderUpdate sel1 ev st))"
  by (simp add: list_handleOrderUpdate_def some_id_Cons some_id_filter_self Let_def
        replace_id_idem)

lemma pos_handleOrderUpdate_distinct:
  "distinct (map order_id (deliveredOrders st))
     \<Longrightarrow> distinct (map order_id (deliveredOrders (pos_handleOrderUpdate ev st)))"
  by (auto simp: pos_handleOrderUpdate_def some_id_def Let_def distinct_map_filter)

lemma list_handleOrderUpdate_distinct:
  "distinct (map order_id (orders st))
     \<Longrightarrow> distinct (map order_id (orders (fst (list_handleOrderUpdate sel ev st))))"
  by (simp add: list_handleOrderUpdate_def some_id_def Let_def distinct_map_filter
        replace_id_ids del: map_map)

text \<open>
  C2. For every working set and every status-changed event, handling the event twice
  gives the same working set (the same records in the same order) as handling it once:
  for the POS page the whole state is the same, for the delivered-orders list the
  orders are the same whatever order is selected at either delivery. An order is
  inserted only when its id is absent and is otherwise kept, replaced or removed by
  id, so a working set without duplicate ids stays without them.
\<close>

theorem status_change_idempotent:
  "pos_handleOrderUpdate ev (pos_handleOrderUpdate ev st) = pos_handleOrderUpdate ev st
   \<and> orders (fst (list_handleOrderUpdate sel2 ev (fst (list_handleOrderUpdate sel1 ev ls))))
       = orders (fst (list_handleOrderUpdate sel1 ev ls))
   \<and> (distinct (map order_id (deliveredOrders st))
        \<longrightarrow> distinct (map order_id (deliveredOrders (pos_handleOrderUpdate ev st))))
   \<and> (distinct (map order_id (orders ls))
        \<longrightarrow> distinct (map order_id (orders (fst (list_handleOrderUpdate sel1 ev ls)))))"
  using pos_handleOrderUpdate_idem list_handleOrderUpdate_idem
    pos_handleOrderUpdate_distinct list_handleOrderUpdate_distinct by blast

theorem status_change_idempotent_witness:
  "map order_id (deliveredOrders
      (pos_handleOrderUpdate (sample_order 1 COMPLETED [])
         (pos_handleOrderUpdate (sample_order 1 COMPLETED []) sample_pos_state))) = [2]
   \<and> map order_id (orders (fst
      (list_handleOrderUpdate (Some 2) (sample_order 1 COMPLETED [])
         (fst (list_handleOrderUpdate (Some 1) (sample_order 1 COMPLETED [])
            sample_list_state))))) = [2]
   \<and> distinct (map order_id (deliveredOrders sample_pos_state))
   \<and> distinct (map order_id (deliveredOrders
        (pos_handleOrderUpdate (sample_order 1 COMPLETED []) sample_pos_state)))
   \<and> distinct (map order_id (orders sample_list_state))
   \<and> distinct (map order_id (orders (fst
        (list_handleOrderUpdate (Some 1) (sample_order 1 COMPLETED []) sample_list_state))))"
  using status_change_idempotent [of "sample_order 1 COMPLETED []" sample_pos_state
      "Some 2" "Some 1" sample_list_state]
  by (simp add: pos_handleOrderUpdate_def list_handleOrderUpdate_def some_id_def
        sample_order_def sample_pos_state_def sample_list_state_def Let_def)

section \<open>The payment the POS submits\<close>

lemma foldl_line_totals:
  "foldl (\<lambda>sum item. sum + f item) a xs = a + sum_list (map f xs)"
  by (induction xs arbitrary: a) (simp_all add: add.assoc)

text \<open>Where no operation rounds, the subtotal is the sum of the specification.\<close>

lemma calculateSubtotal_exact: "calculateSubtotal (\<lambda>x. x) ord = spec_subtotal ord"
  by (simp add: calculateSubtotal_def spec_subtotal_def foldl_line_totals)

lemma completeOrder_body_sel:
  "subtotal (completeOrder_body i pd) = subtotal pd"
  "taxAmount (completeOrder_body i pd) = taxAmount pd"
  "taxPercentage (completeOrder_body i pd) = taxPercentage pd"
  "amountPaid (completeOrder_body i pd) = amountPaid pd"
  "paymentMethod (completeOrder_body i pd) = paymentMethod pd"
  "body_orderId (completeOrder_body i pd) = i"
  by (simp_all add: completeOrder_body_def PaymentDetails.defs complete_body.defs)

text \<open>What the handler of a render submits: the amounts of that render's tax
  percentage, in double arithmetic.\<close>

lemma payment_submission_amounts:
  "\<not> processing r \<Longrightarrow>
     map_option body_orderId (payment_submission rnd r ord) = Some (order_id ord)
   \<and> map_option subtotal (payment_submission rnd r ord) = Some (Some (calculateSubtotal rnd ord))
   \<and> map_option taxPercentage (payment_submission rnd r ord) = Some (Some (taxPct r))
   \<and> map_option taxAmount (payment_submission rnd r ord)
       = Some (Some (rnd (rnd (calculateSubtotal rnd ord * taxPct r) / 100)))
   \<and> map_option amountPaid (payment_submission rnd r ord)
       = Some (rnd (calculateSubtotal rnd ord
                    + rnd (rnd (calculateSubtotal rnd ord * taxPct r) / 100)))"
  by (simp add: payment_submission_def handleCompletePayment_def completeOrder_body_sel
        calculateTotal_def calculateTaxAmount_def)

lemma sample_subtotal:
  "rnd 150 = 150 \<Longrightarrow> rnd 50 = 50 \<Longrightarrow> rnd 200 = 200
     \<Longrightarrow> calculateSubtotal rnd (sample_order 99 DELIVERED sample_items) = 200"
  by (simp add: calculateSubtotal_def sample_order_def sample_items_def)

text \<open>
  C3. The claim: for every order and tax percentage, the submitted body carries the
  subtotal, taxAmount = subtotal times the percentage over 100 and amountPaid =
  subtotal + taxAmount. The button submits from the latest render. Alt+P submits from
  the render in which its listener was registered: for the order of two lines 75 x 2
  and 50 x 1 (subtotal 200), after the percentage is changed from 5 to 10 the button
  submits 10 and 220, and Alt+P submits taxPercentage 5 and amountPaid 210; and while
  a payment is being processed, where the button submits nothing, Alt+P submits
  again. The integers involved are doubles, so rounding leaves them as they are.
\<close>

theorem alt_p_submits_stale_tax:
  "rnd 50 = 50 \<and> rnd 150 = 150 \<and> rnd 200 = 200 \<and> rnd 1000 = 1000 \<and> rnd 10 = 10
     \<and> rnd 210 = 210 \<and> rnd 2000 = 2000 \<and> rnd 20 = 20 \<and> rnd 220 = 220 \<longrightarrow>
   taxPct (latest_render (handleTaxChange (Some 10) details_init)) = 10
   \<and> map_option taxPercentage
        (button_submission rnd (handleTaxChange (Some 10) details_init)
           (sample_order 99 DELIVERED sample_items)) = Some (Some 10)
   \<and> map_option amountPaid
        (button_submission rnd (handleTaxChange (Some 10) details_init)
           (sample_order 99 DELIVERED sample_items)) = Some 220
   \<and> map_option taxPercentage
        (alt_p_submission rnd (handleTaxChange (Some 10) details_init)
           (sample_order 99 DELIVERED sample_items)) = Some (Some 5)
   \<and> map_option amountPaid
        (alt_p_submission rnd (handleTaxChange (Some 10) details_init)
           (sample_order 99 DELIVERED sample_items)) = Some 210
   \<and> processing (latest_render (setProcessing True details_init))
   \<and> button_submission rnd (setProcessing True details_init)
        (sample_order 99 DELIVERED sample_items) = None
   \<and> map_option amountPaid
        (alt_p_submission rnd (setProcessing True details_init)
           (sample_order 99 DELIVERED sample_items)) = Some 210"
proof (intro impI)
  assume h: "rnd 50 = 50 \<and> rnd 150 = 150 \<and> rnd 200 = 200 \<and> rnd 1000 = 1000 \<and> rnd 10 = 10
     \<and> rnd 210 = 210 \<and> rnd 2000 = 2000 \<and> rnd 20 = 20 \<and> rnd 220 = 220"
  then have s: "calculateSubtotal rnd (sample_order 99 DELIVERED sample_items) = 200"
    by (simp add: sample_subtotal)
  have k: "keydown_render (handleTaxChange (Some 10) details_init)
             = \<lparr>chosenMethod = cash, processing = False, taxPct = 5\<rparr>"
    "latest_render (handleTaxChange (Some 10) details_init)
             = \<lparr>chosenMethod = cash, processing = False, taxPct = 10\<rparr>"
    "keydown_render (setProcessing True details_init)
             = \<lparr>chosenMethod = cash, processing = False, taxPct = 5\<rparr>"
    "latest_render (setProcessing True details_init)
             = \<lparr>chosenMethod = cash, processing = True, taxPct = 5\<rparr>"
    by (simp_all add: handleTaxChange_def setProcessing_def details_init_def)
  have n: "button_submission rnd (setProcessing True details_init)
        (sample_order 99 DELIVERED sample_items) = None"
    by (simp add: button_submission_def k payment_submission_def handleCompletePayment_def)
  show "taxPct (latest_render (handleTaxChange (Some 10) details_init)) = 10
   \<and> map_option taxPercentage
        (button_submission rnd (handleTaxChange (Some 10) details_init)
           (sample_order 99 DELIVERED sample_items)) = Some (Some 10)
   \<and> map_option amountPaid
        (button_submission rnd (handleTaxChange (Some 10) details_init)
           (sample_order 99 DELIVERED sample_items)) = Some 220
   \<and> map_option taxPercentage
        (alt_p_submission rnd (handleTaxChange (Some 10) details_init)
           (sample_order 99 DELIVERED sample_items)) = Some (Some 5)
   \<and> map_option amountPaid
        (alt_p_submission rnd (handleTaxChange (Some 10) details_init)
           (sample_order 99 DELIVERED sample_items)) = Some 210
   \<and> processing (latest_render (setProcessing True details_init))
   \<and> button_submission rnd (setProcessing True details_init)
        (sample_order 99 DELIVERED sample_items) = None
   \<and> map_option amountPaid
        (alt_p_submission rnd (setProcessing True details_init)
           (sample_order 99 DELIVERED sample_items)) = Some 210"
    using h n by (simp add: button_submission_def alt_p_submission_def k
        payment_submission_amounts s)
qed

theorem alt_p_submits_stale_tax_witness:
  "map_option taxPercentage
        (alt_p_submission (\<lambda>x. x) (handleTaxChange (Some 10) details_init)
           (sample_order 99 DELIVERED sample_items)) = Some (Some 5)
   \<and> map_option amountPaid
        (alt_p_submission (\<lambda>x. x) (handleTaxChange (Some 10) details_init)
           (sample_order 99 DELIVERED sample_items)) = Some 210
   \<and> map_option amountPaid
        (button_submission (\<lambda>x. x) (handleTaxChange (Some 10) details_init)
           (sample_order 99 DELIVERED sample_items)) = Some 220"
  using alt_p_submits_stale_tax [of "\<lambda>x. x"] by simp

section \<open>Errors of the orders client\<close>

lemma ordersApi_propagate:
  "getAll (Inl err) = Inl err"
  "getById (Inl err) = Inl err"
  "getByStatus (Inl err) = Inl err"
  "updateStatus (Inl err) = Inl err"
  "getWaiterDashboardOrders (Inl err) = Inl err"
  "completeOrder (Inl err) = Inl err"
  by (simp_all add: getAll_def getById_def getByStatus_def updateStatus_def
        getWaiterDashboardOrders_def completeOrder_def)

text \<open>
  C4. The claim: every operation of every resource client hands a failed HTTP call on
  to its caller as a rejection, \<^verbatim>\<open>ordersApi.getDeliveredOrders\<close> included. The other
  operations of \<^verbatim>\<open>ordersApi\<close> do (\<open>ordersApi_propagate\<close>); \<^verbatim>\<open>getDeliveredOrders\<close>
  catches the error and resolves with the empty list.
\<close>

theorem getDeliveredOrders_swallows_error:
  "getDeliveredOrders (Inl ''Network Error'') = (Inr [] :: string + WaiterOrder list)"
  by (simp add: getDeliveredOrders_def)

section \<open>Forced logout on 401\<close>

lemma logout_changes: "logout (Some b) \<noteq> Some b"
proof
  assume "logout (Some b) = Some b"
  then have "map_option navigations (logout (Some b)) = Some (navigations b)"
    by (simp only: option.map)
  then show False
    by (simp add: logout_def)
qed

lemma logout_effect:
  "\<exists>b'. logout (Some b) = Some b' \<and> localStorage b' ''auth-token'' = None
        \<and> localStorage b' ''auth-role'' = None \<and> href b' = ''/login''
        \<and> navigations b' = navigations b @ [''/login'']"
  by (simp add: logout_def)

text \<open>
  C5. For every error response with status 401 that reaches the interceptor, the
  browser afterwards is the one \<^verbatim>\<open>logout\<close> leaves (token and role removed from
  storage, location set to the login page) if and only if the payload's message is not
  the no-role signal; with that signal the browser is left as it was. The error is
  rejected to the caller either way.
\<close>

theorem unauthorized_logout_iff:
  "err_response err = Some r \<and> resp_status r = 401 \<longrightarrow>
     ((fst (on_response_error err (Some b)) = logout (Some b))
        = (data_message r \<noteq> Some no_role_message))
   \<and> (data_message r = Some no_role_message
        \<longrightarrow> fst (on_response_error err (Some b)) = Some b)
   \<and> (\<exists>b'. logout (Some b) = Some b' \<and> localStorage b' ''auth-token'' = None
        \<and> localStorage b' ''auth-role'' = None \<and> href b' = ''/login''
        \<and> navigations b' = navigations b @ [''/login''])
   \<and> snd (on_response_error err (Some b)) = err"
  using logout_changes [of b] logout_effect [of b]
  by (auto simp: on_response_error_def no_role_message_def)

theorem unauthorized_logout_iff_witness:
  "fst (on_response_error (error_with 401 (Some ''Invalid token'')) (Some sample_browser))
       = logout (Some sample_browser)
   \<and> fst (on_response_error (error_with 401 (Some no_role_message)) (Some sample_browser))
       = Some sample_browser"
proof -
  have a: "err_response (error_with 401 (Some ''Invalid token''))
             = Some \<lparr>resp_status = 401, data_message = Some ''Invalid token''\<rparr>"
    and b: "err_response (error_with 401 (Some no_role_message))
             = Some \<lparr>resp_status = 401, data_message = Some no_role_message\<rparr>"
    by (simp_all add: error_with_def)
  have c: "Some ''Invalid token'' \<noteq> Some no_role_message"
    by (simp add: no_role_message_def)
  from unauthorized_logout_iff [of "error_with 401 (Some ''Invalid token'')"
      "\<lparr>resp_status = 401, data_message = Some ''Invalid token''\<rparr>" sample_browser] a c
  have 1: "fst (on_response_error (error_with 401 (Some ''Invalid token'')) (Some sample_browser))
       = logout (Some sample_browser)" by simp
  from unauthorized_logout_iff [of "error_with 401 (Some no_role_message)"
      "\<lparr>resp_status = 401, data_message = Some no_role_message\<rparr>" sample_browser] b
  have 2: "fst (on_response_error (error_with 401 (Some no_role_message)) (Some sample_browser))
       = Some sample_browser" by simp
  from 1 2 show ?thesis by simp
qed

section \<open>Token expiry\<close>

lemma expiry_claim_exp:
  "expiry_claim d = Some e \<Longrightarrow> get_exp d = Some (Val (JNum e))"
  by (cases d) (auto split: option.splits json.splits)

lemma isTokenExpired_unfold:
  "isTokenExpired L now b =
     (case localStorage b ''auth-token'' of
        None \<Rightarrow> True
      | Some token \<Rightarrow>
          (case middle_segment token of
             None \<Rightarrow> True
           | Some p \<Rightarrow>
               (case decode_segment L p of
                  None \<Rightarrow> True
                | Some d \<Rightarrow>
                    (case get_exp d of None \<Rightarrow> True | Some e \<Rightarrow> js_less L e (now / 1000)))))"
  by (auto simp: isTokenExpired_def middle_segment_def decode_segment_def
      split: option.splits)

text \<open>Where the check does fail closed: no token, no middle segment, a segment that
  does not decode or parse, and a numeric expiry in the past.\<close>

lemma isTokenExpired_true_cases:
  "(localStorage b ''auth-token'' = None \<longrightarrow> isTokenExpired L now b)
   \<and> (localStorage b ''auth-token'' = Some token \<and> middle_segment token = None
        \<longrightarrow> isTokenExpired L now b)
   \<and> (localStorage b ''auth-token'' = Some token \<and> middle_segment token = Some p
        \<and> decode_segment L p = None \<longrightarrow> isTokenExpired L now b)
   \<and> (localStorage b ''auth-token'' = Some token \<and> middle_segment token = Some p
        \<and> decode_segment L p = Some d \<and> expiry_claim d = Some e \<and> e < now / 1000
        \<longrightarrow> isTokenExpired L now b)"
  by (auto simp: isTokenExpired_unfold js_less_def dest!: expiry_claim_exp
      split: option.splits)

text \<open>
  C6. The claim: \<^verbatim>\<open>isTokenExpired\<close> returns false only for a well-formed token that is
  not expired, and treats everything else as expired. When the decoded payload has no
  \<^verbatim>\<open>exp\<close> (as \<^verbatim>\<open>{}\<close>, a number or a string), or an \<^verbatim>\<open>exp\<close> that converts to NaN,
  the comparison \<^verbatim>\<open>decoded.exp < currentTime\<close> is false: the function returns false at
  every time, and such a token never expires.
\<close>

theorem token_without_expiry_never_expires:
  "localStorage b ''auth-token'' = Some token \<and> middle_segment token = Some p
     \<and> decode_segment L p = Some d \<and> get_exp d = Some e \<and> to_number L e = None
   \<longrightarrow> \<not> isTokenExpired L now b"
  by (simp add: isTokenExpired_unfold js_less_def)

theorem token_without_expiry_never_expires_witness:
  "middle_segment ''h.e30=.s'' = Some ''e30=''
   \<and> decode_segment sample_library ''e30='' = Some (JObj [])
   \<and> get_exp (JObj []) = Some Undefined
   \<and> \<not> isTokenExpired sample_library 9999999999999 (token_in (Some ''h.e30=.s''))
   \<and> decode_segment sample_library ''eyJleHAiOiJhYmMifQ==''
        = Some (JObj [(''exp'', JStr ''abc'')])
   \<and> \<not> isTokenExpired sample_library 9999999999999
          (token_in (Some ''h.eyJleHAiOiJhYmMifQ==.s''))"
proof -
  have seg: "middle_segment ''h.e30=.s'' = Some ''e30=''"
    and seg2: "middle_segment ''h.eyJleHAiOiJhYmMifQ==.s'' = Some ''eyJleHAiOiJhYmMifQ==''"
    by (simp_all add: middle_segment_def)
  have dec: "decode_segment sample_library ''e30='' = Some (JObj [])"
    and dec2: "decode_segment sample_library ''eyJleHAiOiJhYmMifQ==''
                 = Some (JObj [(''exp'', JStr ''abc'')])"
    by (simp_all add: decode_segment_def sample_library_def)
  have sto: "\<And>t. localStorage (token_in t) ''auth-token'' = t"
    by (simp add: token_in_def)
  have ex: "get_exp (JObj []) = Some Undefined"
    "to_number sample_library Undefined = None"
    "get_exp (JObj [(''exp'', JStr ''abc'')]) = Some (Val (JStr ''abc''))"
    "to_number sample_library (Val (JStr ''abc'')) = None"
    by (simp_all add: sample_library_def)
  have 1: "\<not> isTokenExpired sample_library 9999999999999 (token_in (Some ''h.e30=.s''))"
    using token_without_expiry_never_expires [where b = "token_in (Some ''h.e30=.s'')"
        and token = "''h.e30=.s''" and p = "''e30=''" and L = sample_library
        and d = "JObj []" and e = Undefined and now = 9999999999999] sto seg dec ex
    by simp
  have 2: "\<not> isTokenExpired sample_library 9999999999999
          (token_in (Some ''h.eyJleHAiOiJhYmMifQ==.s''))"
    using token_without_expiry_never_expires
      [where b = "token_in (Some ''h.eyJleHAiOiJhYmMifQ==.s'')"
        and token = "''h.eyJleHAiOiJhYmMifQ==.s''" and p = "''eyJleHAiOiJhYmMifQ==''"
        and L = sample_library and d = "JObj [(''exp'', JStr ''abc'')]"
        and e = "Val (JStr ''abc'')" and now = 9999999999999] sto seg2 dec2 ex
    by simp
  from 1 2 seg dec dec2 ex show ?thesis by simp
qed

section \<open>Price resolution\<close>

lemma numeric_Some:
  "numeric pf v = Some r \<Longrightarrow> present v \<and> nan_to_zero (as_number pf v) = r"
  by (induction pf v rule: numeric.induct) (auto simp: present_def split: jsnum.splits)

lemma numeric_None:
  "numeric pf v = None \<Longrightarrow> present v \<Longrightarrow> nan_to_zero (as_number pf v) = 0"
  by (induction pf v rule: numeric.induct) (auto simp: present_def split: jsnum.splits)

text \<open>
  C7. For every item record, \<^verbatim>\<open>getItemPrice(item, true)\<close> is the half price when that
  is numeric; the full price when the half price is absent and the full price is
  numeric; the legacy price when half and full price are absent and the legacy price
  is numeric; and 0 when each of the three is absent or not numeric, and for a missing
  item. The function is total: no input makes it throw.
\<close>

theorem getItemPrice_half_portion:
  "(numeric pf (halfPrice it) = Some x \<longrightarrow> getItemPrice pf (Some it) True = x)
   \<and> (\<not> present (halfPrice it) \<and> numeric pf (fullPrice it) = Some y
        \<longrightarrow> getItemPrice pf (Some it) True = y)
   \<and> (\<not> present (halfPrice it) \<and> \<not> present (fullPrice it)
        \<and> numeric pf (legacy_price it) = Some z
        \<longrightarrow> getItemPrice pf (Some it) True = z)
   \<and> (numeric pf (halfPrice it) = None \<and> numeric pf (fullPrice it) = None
        \<and> numeric pf (legacy_price it) = None
        \<longrightarrow> getItemPrice pf (Some it) True = 0)
   \<and> getItemPrice pf None True = 0"
  using numeric_Some [of pf] numeric_None [of pf]
  by (auto simp: getItemPrice_def)

theorem getItemPrice_half_portion_witness:
  "getItemPrice sample_parseFloat
      (Some \<lparr>halfPrice = FNumber (Num 60), fullPrice = FNumber (Num 100), legacy_price = FUndefined\<rparr>)
      True = 60
   \<and> getItemPrice sample_parseFloat
      (Some \<lparr>halfPrice = FUndefined, fullPrice = FOther ''12.5'', legacy_price = FNumber (Num 80)\<rparr>)
      True = 12.5
   \<and> getItemPrice sample_parseFloat
      (Some \<lparr>halfPrice = FNull, fullPrice = FUndefined, legacy_price = FNumber (Num 80)\<rparr>)
      True = 80
   \<and> getItemPrice sample_parseFloat
      (Some \<lparr>halfPrice = FOther ''abc'', fullPrice = FNumber NaN, legacy_price = FNull\<rparr>)
      True = 0"
  using
    getItemPrice_half_portion [where pf = sample_parseFloat and x = 60 and it =
      "\<lparr>halfPrice = FNumber (Num 60), fullPrice = FNumber (Num 100), legacy_price = FUndefined\<rparr>"]
    getItemPrice_half_portion [where pf = sample_parseFloat and y = "12.5" and it =
      "\<lparr>halfPrice = FUndefined, fullPrice = FOther ''12.5'', legacy_price = FNumber (Num 80)\<rparr>"]
    getItemPrice_half_portion [where pf = sample_parseFloat and z = 80 and it =
      "\<lparr>halfPrice = FNull, fullPrice = FUndefined, legacy_price = FNumber (Num 80)\<rparr>"]
    getItemPrice_half_portion [where pf = sample_parseFloat and it =
      "\<lparr>halfPrice = FOther ''abc'', fullPrice = FNumber NaN, legacy_price = FNull\<rparr>"]
  by (simp add: present_def sample_parseFloat_def)

section \<open>Route guards\<close>

lemma route_keys:
  "map (\<lambda>(path, e). match_key path) routes =
     ['''', ''/admin'', ''/admin/dashboard'', ''/admin/categories'', ''/admin/menus'',
      ''/admin/items'', ''/admin/tables'', ''/admin/settings'', ''/posadmin/pos'',
      ''/chef'', ''/chef/orders'', ''/waiter'', ''/waiter/orders'', ''/waiter/orderskot'',
      ''/login'', ''/signup'', ''/newuser'']"
  by code_simp

lemma unguarded_elements:
  "route_element ''/chef'' = Page ChefDashboard"
  "route_element ''/chef/orders'' = Page ChefOrdersPage"
  "route_element ''/waiter'' = Page WaiterDashboard"
  "route_element ''/waiter/orders'' = Page WaiterOrdersPage"
  "route_element ''/waiter/ordersKOT'' = Page WaiterOrdersKOTPage"
  by code_simp+

text \<open>
  C8, as the claim states it, fails: a visitor without a token who opens \<^verbatim>\<open>/chef\<close> gets
  the chef dashboard, since the chef and waiter routes are not wrapped in a guard.
\<close>

theorem chef_route_unguarded:
  "\<not> isAuthenticated visitor
   \<and> visit sample_library 0 (token_in None) visitor ''/chef'' = [Rendered ChefDashboard]"
  by (simp add: visit_def unguarded_elements visitor_def isAuthenticated_def)

lemma auth_guarded_paths:
  "filter auth_guarded (map fst routes) =
     [''/'', ''/admin'', ''/admin/dashboard'', ''/admin/categories'', ''/admin/menus'',
      ''/admin/items'', ''/admin/tables'', ''/admin/settings'', ''/posAdmin/pos'']"
  by code_simp

lemma auth_guarded_any_case:
  "auth_guarded ''/Admin/Items/''"
  by code_simp

text \<open>Why the amended claim speaks of the unauthenticated visitor only: with a token in
  the context that \<^verbatim>\<open>validateAuth\<close> rejects, the page is rendered once before the
  redirect.\<close>

lemma expired_token_renders_once:
  "visit sample_library 150000 (token_in (Some ''h.eyJleHAiOjEwMH0=.s'')) admin_context
     ''/admin/items'' = [Rendered ItemPage, Redirect ''/login'' (Some ''/admin/items'')]"
proof -
  have e: "route_element ''/admin/items'' = AuthGuard (Page ItemPage)"
    by code_simp
  have v: "\<not> validateAuth sample_library 150000 (token_in (Some ''h.eyJleHAiOjEwMH0=.s''))"
    by (simp add: validateAuth_def token_in_def isTokenExpired_unfold middle_segment_def
          decode_segment_def sample_library_def js_less_def)
  show ?thesis
    using v by (simp add: visit_def e admin_context_def isAuthenticated_def guard_init_def
          checkToken_def)
qed

text \<open>
  C8, amended. For every route that \<^verbatim>\<open>App\<close> wraps in \<^verbatim>\<open>AuthGuard\<close> (the root, the admin
  routes and the POS route, listed by \<open>auth_guarded_paths\<close>), a visit while
  unauthenticated gives, at the first render, a redirect to the login route that
  carries the requested location, and nothing else: the page is not rendered. The
  chef and waiter routes are not wrapped in any guard and render their page to every
  visitor.
\<close>

theorem guarded_routes_redirect:
  "(auth_guarded pathname \<and> \<not> isAuthenticated a
      \<longrightarrow> visit L now b a pathname = [Redirect ''/login'' (Some pathname)])
   \<and> visit L now b a ''/chef'' = [Rendered ChefDashboard]
   \<and> visit L now b a ''/chef/orders'' = [Rendered ChefOrdersPage]
   \<and> visit L now b a ''/waiter'' = [Rendered WaiterDashboard]
   \<and> visit L now b a ''/waiter/orders'' = [Rendered WaiterOrdersPage]
   \<and> visit L now b a ''/waiter/ordersKOT'' = [Rendered WaiterOrdersKOTPage]"
proof -
  have "visit L now b a pathname = [Redirect ''/login'' (Some pathname)]"
    if g: "auth_guarded pathname" and u: "\<not> isAuthenticated a"
  proof -
    from g obtain path e where "find_route pathname = Some (path, AuthGuard e)"
      by (cases "find_route pathname")
         (auto simp: auth_guarded_def split: prod.splits element.splits)
    then have "route_element pathname = AuthGuard e"
      by (simp add: route_element_def)
    with u show ?thesis
      by (simp add: visit_def)
  qed
  moreover have "visit L now b a ''/chef'' = [Rendered ChefDashboard]"
    "visit L now b a ''/chef/orders'' = [Rendered ChefOrdersPage]"
    "visit L now b a ''/waiter'' = [Rendered WaiterDashboard]"
    "visit L now b a ''/waiter/orders'' = [Rendered WaiterOrdersPage]"
    "visit L now b a ''/waiter/ordersKOT'' = [Rendered WaiterOrdersKOTPage]"
    by (simp_all add: visit_def unguarded_elements)
  ultimately show ?thesis by blast
qed

theorem guarded_routes_redirect_witness:
  "auth_guarded ''/admin/items'' \<and> \<not> isAuthenticated visitor
   \<and> visit sample_library 0 (token_in None) visitor ''/admin/items''
       = [Redirect ''/login'' (Some ''/admin/items'')]
   \<and> auth_guarded ''/posAdmin/pos''
   \<and> visit sample_library 0 (token_in None) visitor ''/posAdmin/pos''
       = [Redirect ''/login'' (Some ''/posAdmin/pos'')]"
proof -
  have g: "auth_guarded ''/admin/items''" "auth_guarded ''/posAdmin/pos''"
    by code_simp+
  have u: "\<not> isAuthenticated visitor"
    by (simp add: visitor_def isAuthenticated_def)
  from guarded_routes_redirect [of "''/admin/items''" visitor sample_library 0 "token_in None"]
    guarded_routes_redirect [of "''/posAdmin/pos''" visitor sample_library 0 "token_in None"] g u
  show ?thesis by simp
qed

section \<open>Deleting categories\<close>

lemma single_delete_blocked:
  "cid \<in> set (confirm_single st) \<Longrightarrow> getCategoryItemCount st cid = 0"
  by (auto simp: confirm_single_def offers_delete_def single_dialog_def truthy_def
        handleDeleteCategory_def split: option.splits if_splits)

text \<open>
  C9. The claim: no deletion path of the client calls DELETE for a category that menu
  items refer to. The batch dialog is given a description, so whenever it is open it
  offers the Delete action whatever the item count, and confirming calls
  \<^verbatim>\<open>categoriesApi.delete\<close> for every selected category: with category 1 selected and
  one item in it, the count is 1 and category 1 is deleted. The single delete is
  blocked (\<open>single_delete_blocked\<close>).
\<close>

theorem batch_delete_ignores_item_count:
  "batchDeleteDialogOpen st \<and> selectedCategories st \<noteq> []
     \<longrightarrow> offers_delete (batch_dialog st) \<and> confirm_batch st = selectedCategories st"
  by (simp add: confirm_batch_def offers_delete_def batch_dialog_def truthy_def
        handleBatchDeleteCategories_def)

theorem batch_delete_ignores_item_count_witness:
  "batchDeleteDialogOpen sample_category_page
   \<and> selectedCategories sample_category_page \<noteq> []
   \<and> getCategoryItemCount sample_category_page 1 = 1
   \<and> itemCount (batch_dialog sample_category_page) = 1
   \<and> confirm_batch sample_category_page = [1]"
proof -
  have h: "batchDeleteDialogOpen sample_category_page"
    "selectedCategories sample_category_page = [1]"
    by (simp_all add: sample_category_page_def)
  have c: "getCategoryItemCount sample_category_page 1 = 1"
    "itemCount (batch_dialog sample_category_page) = 1"
    by (simp_all add: batch_dialog_def getCategoryItemCount_def sample_category_page_def)
  from batch_delete_ignores_item_count [of sample_category_page] h c
  show ?thesis by simp
qed

section \<open>Toggling availability\<close>

lemma same_id_same_item:
  assumes "distinct (map item_id items)" "item \<in> set items" "i \<in> set items"
  shows "(item_id i = item_id item) = (i = item)"
  using assms by (auto simp: distinct_map dest: inj_onD)

text \<open>
  C10. In the chef's availability view, with items of distinct ids and the handler
  called with one of them: when the backend update fails, the items are exactly what
  they were before the call; when it succeeds, the items are the former ones with the
  flag \<^verbatim>\<open>isAvailable\<close> of the targeted item negated and nothing else changed.
\<close>

theorem toggle_availability_atomic:
  "distinct (map item_id items) \<and> item \<in> set items \<longrightarrow>
     handleToggleAvailability item (Inl err :: 'e + MenuItem) items = items
   \<and> handleToggleAvailability item (Inr saved :: 'e + MenuItem) items
       = map (\<lambda>i. if i = item then i\<lparr>isAvailable := \<not> isAvailable i\<rparr> else i) items"
proof (intro impI conjI)
  assume a: "distinct (map item_id items) \<and> item \<in> set items"
  then have eq: "\<And>i. i \<in> set items \<Longrightarrow> (item_id i = item_id item) = (i = item)"
    using same_id_same_item by blast
  show "handleToggleAvailability item (Inl err :: 'e + MenuItem) items = items"
    using eq by (simp add: handleToggleAvailability_def Let_def comp_def map_idI)
  show "handleToggleAvailability item (Inr saved :: 'e + MenuItem) items
       = map (\<lambda>i. if i = item then i\<lparr>isAvailable := \<not> isAvailable i\<rparr> else i) items"
    using eq by (simp add: handleToggleAvailability_def Let_def)
qed

theorem toggle_availability_atomic_witness:
  "distinct (map item_id sample_menu) \<and> hd sample_menu \<in> set sample_menu
   \<and> handleToggleAvailability (hd sample_menu) (Inl ''500'') sample_menu = sample_menu
   \<and> map isAvailable (handleToggleAvailability (hd sample_menu) (Inr (hd sample_menu) :: string + MenuItem) sample_menu)
       = [False, False]"
proof -
  have h: "distinct (map item_id sample_menu) \<and> hd sample_menu \<in> set sample_menu"
    by (simp add: sample_menu_def)
  from toggle_availability_atomic [of sample_menu "hd sample_menu" "''500''" "hd sample_menu"] h
  have r: "handleToggleAvailability (hd sample_menu) (Inl ''500'') sample_menu = sample_menu"
    and s: "handleToggleAvailability (hd sample_menu) (Inr (hd sample_menu) :: string + MenuItem) sample_menu
       = map (\<lambda>i. if i = hd sample_menu then i\<lparr>isAvailable := \<not> isAvailable i\<rparr> else i) sample_menu"
    by simp_all
  have "map isAvailable (map (\<lambda>i. if i = hd sample_menu then i\<lparr>isAvailable := \<not> isAvailable i\<rparr> else i) sample_menu)
       = [False, False]"
    by (simp add: sample_menu_def)
  with h r s show ?thesis by simp
qed

end
